theory Spec2Isabelle
  imports Complex_Main "HOL-Library.Log_Nat" "HOL-Library.Sublist"
begin

section \<open>Strings\<close>

text \<open>
  A Python \<open>str\<close> is modelled as a HOL \<open>string\<close>: a list of 8-bit characters. The
  texts the bot builds are ASCII except for the one emoji of the error message, which
  stands here as its four UTF-8 bytes. Every character the bot inspects (the reserved
  MarkdownV2 set, digits, signs, white space) is ASCII, and an ASCII byte never occurs
  inside a multi-byte UTF-8 sequence, so replacing ASCII characters byte-wise gives the
  bytes of what Python computes code point by code point.
\<close>

definition backslash :: char where
  "backslash = CHR 0x5C"

definition newline :: char where
  "newline = CHR 0x0A"

subsection \<open>\<open>escape_markdown_v2\<close> (bot.py, lines 101-106)\<close>

text \<open>The list \<open>escape_chars\<close> of line 103, in its order; \<open>CHR 0x60\<close> is the backquote.\<close>

definition escape_chars :: "char list" where
  "escape_chars =
     [CHR ''_'', CHR ''*'', CHR ''['', CHR '']'', CHR ''('', CHR '')'', CHR ''~'', CHR 0x60,
      CHR ''>'', CHR ''#'', CHR ''+'', CHR ''-'', CHR ''='', CHR ''|'', CHR ''{'', CHR ''}'',
      CHR ''.'', CHR ''!'']"

text \<open>
  \<open>text.replace(old, new)\<close> for a pattern \<open>old\<close> of one character: every occurrence of
  the character is replaced, left to right.
\<close>

definition str_replace :: "char \<Rightarrow> string \<Rightarrow> string \<Rightarrow> string" where
  "str_replace old new s = concat (map (\<lambda>x. if x = old then new else [x]) s)"

text \<open>
  The loop of lines 104-105 rebinds \<open>text\<close> once per element of \<open>escape_chars\<close>: a left
  fold over the list, the accumulator being the text so far.
\<close>

definition escape_markdown_v2 :: "string \<Rightarrow> string" where
  "escape_markdown_v2 s =
     foldl (\<lambda>t char. str_replace char [backslash, char] t) s escape_chars"

text \<open>
  The reference the loop is compared with: one pass over the text that puts one backslash
  before each character of a set \<open>cs\<close> and leaves every other character alone.
\<close>

definition escape_one :: "char list \<Rightarrow> char \<Rightarrow> string" where
  "escape_one cs x = (if x \<in> set cs then [backslash, x] else [x])"

definition escape_pass :: "string \<Rightarrow> string" where
  "escape_pass s = concat (map (escape_one escape_chars) s)"

section \<open>Python values\<close>

subsection \<open>Exceptions\<close>

text \<open>
  The exceptions the bot's calls can raise. All are subclasses of \<open>Exception\<close>, so an
  \<open>except Exception\<close> clause catches each of them. \<open>JSONDecodeError\<close> (raised by
  \<open>Response.json()\<close>) is a subclass of \<open>ValueError\<close>; \<open>TypeError\<close> and \<open>OverflowError\<close>
  are not, which matters for the \<open>except ValueError\<close> of line 50.
\<close>

datatype exn =
    RequestException | HTTPError | JSONDecodeError | ValueError | TypeError
  | KeyError | IndexError | OverflowError | ZeroDivisionError

definition is_ValueError :: "exn \<Rightarrow> bool" where
  "is_ValueError e = (e = ValueError \<or> e = JSONDecodeError)"

text \<open>Sequencing of two steps either of which may raise: the first exception wins.\<close>

definition and_then :: "exn + 'a \<Rightarrow> ('a \<Rightarrow> exn + 'b) \<Rightarrow> exn + 'b" where
  "and_then m f = (case m of Inl e \<Rightarrow> Inl e | Inr x \<Rightarrow> f x)"

subsection \<open>Floating-point numbers\<close>

text \<open>
  A Python \<open>float\<close> is an IEEE 754 binary64 value. \<open>Finite s m\<close> is the finite number with
  sign bit \<open>s\<close> (\<open>True\<close> for negative, so \<open>Finite True 0\<close> is \<open>-0.0\<close>) and exact magnitude
  \<open>m \<ge> 0\<close>; \<open>Infinite s\<close> is \<open>inf\<close> or \<open>-inf\<close>; \<open>NaN\<close> is not-a-number. Every arithmetic
  result is the exact rational result rounded to the nearest binary64 value, ties to
  even, by \<open>round_double\<close>: 53 significant bits, gradual underflow below \<open>2^-1022\<close>,
  overflow to infinity from \<open>2^1024\<close> on.
\<close>

datatype pyfloat = Finite bool rat | Infinite bool | NaN

definition pow2 :: "int \<Rightarrow> rat" where
  "pow2 k = (if 0 \<le> k then 2 ^ nat k else 1 / 2 ^ nat (- k))"

text \<open>The binary exponent of a positive rational \<open>x\<close>: \<open>pow2 e \<le> x < pow2 (e + 1)\<close>.\<close>

definition binade :: "rat \<Rightarrow> int" where
  "binade x = (let (p, q) = quotient_of x; k = bitlen p - bitlen q
               in if pow2 k \<le> x then k else k - 1)"

definition round_half_even :: "rat \<Rightarrow> int" where
  "round_half_even x =
     (let n = \<lfloor>x\<rfloor>; d = x - of_int n
      in if d < 1 / 2 then n else if 1 / 2 < d then n + 1 else if even n then n else n + 1)"

definition round_double :: "bool \<Rightarrow> rat \<Rightarrow> pyfloat" where
  "round_double s x =
     (if x = 0 then Finite s 0
      else let e = max (binade x) (- 1022);
               ulp = pow2 (e - 52);
               r = of_int (round_half_even (x / ulp)) * ulp
           in if pow2 1024 \<le> r then Infinite s else Finite s r)"

text \<open>
  \<open>float(n)\<close> for an \<open>int\<close>, also the conversion Python applies to the \<open>int\<close> operand of a
  mixed \<open>float\<close>/\<open>int\<close> operation: correctly rounded, \<open>OverflowError\<close> when out of range.
\<close>

definition float_of_int :: "int \<Rightarrow> exn + pyfloat" where
  "float_of_int n =
     (case round_double (n < 0) (of_int \<bar>n\<bar>) of
        Infinite s \<Rightarrow> Inl OverflowError
      | f \<Rightarrow> Inr f)"

fun float_mul :: "pyfloat \<Rightarrow> pyfloat \<Rightarrow> pyfloat" where
  "float_mul NaN y = NaN"
| "float_mul x NaN = NaN"
| "float_mul (Infinite s) (Infinite t) = Infinite (s \<noteq> t)"
| "float_mul (Infinite s) (Finite t n) = (if n = 0 then NaN else Infinite (s \<noteq> t))"
| "float_mul (Finite s m) (Infinite t) = (if m = 0 then NaN else Infinite (s \<noteq> t))"
| "float_mul (Finite s m) (Finite t n) = round_double (s \<noteq> t) (m * n)"

text \<open>Python's \<open>float / float\<close>: a zero divisor raises, everything else follows IEEE 754.\<close>

fun float_div :: "pyfloat \<Rightarrow> pyfloat \<Rightarrow> exn + pyfloat" where
  "float_div x (Finite t n) =
     (if n = 0 then Inl ZeroDivisionError
      else case x of
             NaN \<Rightarrow> Inr NaN
           | Infinite s \<Rightarrow> Inr (Infinite (s \<noteq> t))
           | Finite s m \<Rightarrow> Inr (round_double (s \<noteq> t) (m / n)))"
| "float_div x NaN = Inr NaN"
| "float_div NaN (Infinite t) = Inr NaN"
| "float_div (Infinite s) (Infinite t) = Inr NaN"
| "float_div (Finite s m) (Infinite t) = Inr (Finite (s \<noteq> t) 0)"

text \<open>\<open>x * n\<close> and \<open>x / n\<close> for a \<open>float\<close> \<open>x\<close> and an \<open>int\<close> \<open>n\<close>: \<open>n\<close> is converted first.\<close>

definition mul_float_int :: "pyfloat \<Rightarrow> int \<Rightarrow> exn + pyfloat" where
  "mul_float_int x n = and_then (float_of_int n) (\<lambda>y. Inr (float_mul x y))"

definition div_float_int :: "pyfloat \<Rightarrow> int \<Rightarrow> exn + pyfloat" where
  "div_float_int x n = and_then (float_of_int n) (\<lambda>y. float_div x y)"

text \<open>
  \<open>a / b\<close> for two \<open>int\<close>s (true division): the exact quotient, correctly rounded;
  \<open>OverflowError\<close> when the quotient is too large for a \<open>float\<close>.
\<close>

definition truediv_int_int :: "int \<Rightarrow> int \<Rightarrow> exn + pyfloat" where
  "truediv_int_int a b =
     (if b = 0 then Inl ZeroDivisionError
      else case round_double ((a < 0) \<noteq> (b < 0)) (of_int \<bar>a\<bar> / of_int \<bar>b\<bar>) of
             Infinite s \<Rightarrow> Inl OverflowError
           | f \<Rightarrow> Inr f)"

text \<open>\<open>int(x)\<close> for a \<open>float\<close>: truncation toward zero; infinities and NaN raise.\<close>

definition int_of_float :: "pyfloat \<Rightarrow> exn + int" where
  "int_of_float x =
     (case x of
        Finite s m \<Rightarrow> Inr (if s then - \<lfloor>m\<rfloor> else \<lfloor>m\<rfloor>)
      | Infinite s \<Rightarrow> Inl OverflowError
      | NaN \<Rightarrow> Inl ValueError)"

subsection \<open>Numbers from strings\<close>

text \<open>
  \<open>int()\<close> and \<open>float()\<close> of a \<open>str\<close>, for ASCII texts. Python also accepts the
  decimal digits and the white space of other scripts, and refuses an integer literal of
  more than 4300 digits; bodies and JSON strings with such contents are outside the model.
\<close>

text \<open>The ASCII characters for which \<open>str.isspace\<close> holds; \<open>strip()\<close> removes them at both ends.\<close>

definition py_isspace :: "char \<Rightarrow> bool" where
  "py_isspace c = (c \<in> set [CHR 0x09, CHR 0x0A, CHR 0x0B, CHR 0x0C, CHR 0x0D,
                            CHR 0x1C, CHR 0x1D, CHR 0x1E, CHR 0x1F, CHR 0x20])"

definition py_strip :: "string \<Rightarrow> string" where
  "py_strip s = rev (dropWhile py_isspace (rev (dropWhile py_isspace s)))"

definition is_digit :: "char \<Rightarrow> bool" where
  "is_digit c = (c \<in> set ''0123456789'')"

definition digit_val :: "char \<Rightarrow> int" where
  "digit_val c = of_char c - 48"

text \<open>
  A run of decimal digits in which single underscores may stand between two digits
  (\<open>1_000\<close>); the result is the digits without the underscores.
\<close>

fun digitpart :: "string \<Rightarrow> string option" where
  "digitpart [] = None"
| "digitpart [c] = (if is_digit c then Some [c] else None)"
| "digitpart (c # d # cs) =
     (if is_digit c
      then map_option (Cons c) (digitpart (if d = CHR ''_'' then cs else d # cs))
      else None)"

definition digits_value :: "string \<Rightarrow> int" where
  "digits_value ds = foldl (\<lambda>a c. 10 * a + digit_val c) 0 ds"

text \<open>An optional sign in front: whether it is a minus, and the rest.\<close>

fun split_sign :: "string \<Rightarrow> bool \<times> string" where
  "split_sign [] = (False, [])"
| "split_sign (c # cs) =
     (if c = CHR ''-'' then (True, cs) else if c = CHR ''+'' then (False, cs) else (False, c # cs))"

text \<open>\<open>int(s)\<close> for a \<open>str\<close>, base 10.\<close>

definition int_of_str :: "string \<Rightarrow> exn + int" where
  "int_of_str s =
     (let (neg, u) = split_sign (py_strip s)
      in case digitpart u of
           None \<Rightarrow> Inl ValueError
         | Some ds \<Rightarrow> Inr (if neg then - digits_value ds else digits_value ds))"

definition to_lower :: "char \<Rightarrow> char" where
  "to_lower c = (if c \<in> set ''ABCDEFGHIJKLMNOPQRSTUVWXYZ''
                 then char_of (of_char c + (32::nat)) else c)"

text \<open>The text before the first character satisfying \<open>P\<close>, and the text after it if there is one.\<close>

definition split_at :: "(char \<Rightarrow> bool) \<Rightarrow> string \<Rightarrow> string \<times> string option" where
  "split_at P s =
     (case dropWhile (\<lambda>c. \<not> P c) s of
        [] \<Rightarrow> (s, None)
      | c # r \<Rightarrow> (takeWhile (\<lambda>c. \<not> P c) s, Some r))"

text \<open>A digit run that may be empty (around the decimal point).\<close>

definition digitpart_opt :: "string \<Rightarrow> string option" where
  "digitpart_opt s = (if s = [] then Some [] else digitpart s)"

text \<open>
  The mantissa \<open>digits [. digits]\<close> of a decimal literal, at least one digit in all: its
  digits as one run and the number of them after the point.
\<close>

definition parse_mantissa :: "string \<Rightarrow> (string \<times> nat) option" where
  "parse_mantissa s =
     (case split_at (\<lambda>c. c = CHR ''.'') s of
        (ip, None) \<Rightarrow> map_option (\<lambda>ds. (ds, 0)) (digitpart ip)
      | (ip, Some fp) \<Rightarrow>
          (case (digitpart_opt ip, digitpart_opt fp) of
             (Some i, Some f) \<Rightarrow> if i = [] \<and> f = [] then None else Some (i @ f, length f)
           | _ \<Rightarrow> None))"

definition parse_exponent :: "string option \<Rightarrow> int option" where
  "parse_exponent x =
     (case x of
        None \<Rightarrow> Some 0
      | Some s \<Rightarrow>
          (let (neg, u) = split_sign s
           in map_option (\<lambda>ds. if neg then - digits_value ds else digits_value ds)
                (digitpart u)))"

definition pow10 :: "int \<Rightarrow> rat" where
  "pow10 k = (if 0 \<le> k then 10 ^ nat k else 1 / 10 ^ nat (- k))"

text \<open>
  \<open>float(s)\<close> for a \<open>str\<close>: \<open>inf\<close>, \<open>infinity\<close> and \<open>nan\<close> in any case, or a decimal literal
  with an optional exponent, correctly rounded; a literal too large gives \<open>inf\<close>.
\<close>

definition float_of_str :: "string \<Rightarrow> exn + pyfloat" where
  "float_of_str s =
     (let (neg, u) = split_sign (py_strip s); l = map to_lower u
      in if l = ''inf'' \<or> l = ''infinity'' then Inr (Infinite neg)
         else if l = ''nan'' then Inr NaN
         else case split_at (\<lambda>c. c = CHR ''e'' \<or> c = CHR ''E'') u of
                (m, x) \<Rightarrow>
                  (case (parse_mantissa m, parse_exponent x) of
                     (Some (ds, k), Some e) \<Rightarrow>
                       Inr (round_double neg (of_int (digits_value ds) * pow10 (e - int k)))
                   | _ \<Rightarrow> Inl ValueError))"

subsection \<open>Formatting a float with the presentation type \<open>f\<close>\<close>

definition digit_char :: "int \<Rightarrow> char" where
  "digit_char d = ''0123456789'' ! nat d"

text \<open>The decimal digits of a natural number, most significant first.\<close>

function dec_digits :: "int \<Rightarrow> string" where
  "dec_digits n = (if n < 10 then [digit_char n] else dec_digits (n div 10) @ [digit_char (n mod 10)])"
  by pat_completeness auto
termination
  by (relation "measure nat") auto

declare dec_digits.simps [simp del]

text \<open>The thousands separators of the \<open>,\<close> option, on the reversed integer digits.\<close>

fun commas_rev :: "string \<Rightarrow> string" where
  "commas_rev (a # b # c # d # r) = a # b # c # CHR '','' # commas_rev (d # r)"
| "commas_rev s = s"

definition group_thousands :: "string \<Rightarrow> string" where
  "group_thousands s = rev (commas_rev (rev s))"

text \<open>
  \<open>format(x, '.<prec>f')\<close>, with the \<open>,\<close> option when \<open>grouping\<close>: the exact value rounded
  half-to-even to \<open>prec\<close> decimals; no decimal point when \<open>prec = 0\<close>; the sign of a negative
  number (and of \<open>-0.0\<close>) is kept even when every printed digit is zero.
\<close>

text \<open>The digits of \<open>m\<close> rounded to \<open>prec\<close> decimals, at least one of them before the point.\<close>

definition fixed_digits :: "nat \<Rightarrow> rat \<Rightarrow> string" where
  "fixed_digits prec m =
     (let ds = dec_digits (round_half_even (m * 10 ^ prec))
      in replicate (prec + 1 - length ds) CHR ''0'' @ ds)"

definition format_f :: "nat \<Rightarrow> bool \<Rightarrow> pyfloat \<Rightarrow> string" where
  "format_f prec grouping x =
     (case x of
        NaN \<Rightarrow> ''nan''
      | Infinite s \<Rightarrow> (if s then ''-inf'' else ''inf'')
      | Finite s m \<Rightarrow>
          (let ds = fixed_digits prec m;
               ip = take (length ds - prec) ds;
               fp = drop (length ds - prec) ds
           in (if s then ''-'' else []) @ (if grouping then group_thousands ip else ip)
              @ (if prec = 0 then [] else CHR ''.'' # fp)))"

subsection \<open>JSON values\<close>

text \<open>
  What \<open>Response.json()\<close> returns: \<open>None\<close>, a \<open>bool\<close>, an \<open>int\<close>, a \<open>float\<close>, a \<open>str\<close>, a
  \<open>list\<close> or a \<open>dict\<close> with \<open>str\<close> keys (its items, each key once).
\<close>

datatype json =
    JNull | JBool bool | JInt int | JFloat pyfloat | JStr string
  | JList "json list" | JDict "(string \<times> json) list"

text \<open>The truth value of an object, as \<open>if data\<close> and \<open>data and ...\<close> test it.\<close>

fun truthy :: "json \<Rightarrow> bool" where
  "truthy JNull = False"
| "truthy (JBool b) = b"
| "truthy (JInt n) = (n \<noteq> 0)"
| "truthy (JFloat x) = (case x of Finite s m \<Rightarrow> m \<noteq> 0 | _ \<Rightarrow> True)"
| "truthy (JStr s) = (s \<noteq> [])"
| "truthy (JList xs) = (xs \<noteq> [])"
| "truthy (JDict kvs) = (kvs \<noteq> [])"

fun is_list :: "json \<Rightarrow> bool" where
  "is_list (JList xs) = True"
| "is_list v = False"

fun is_dict :: "json \<Rightarrow> bool" where
  "is_dict (JDict kvs) = True"
| "is_dict v = False"

text \<open>\<open>int(v)\<close>: \<open>TypeError\<close> for \<open>None\<close>, a list or a dict.\<close>

fun py_int :: "json \<Rightarrow> exn + int" where
  "py_int (JInt n) = Inr n"
| "py_int (JBool b) = Inr (if b then 1 else 0)"
| "py_int (JFloat x) = int_of_float x"
| "py_int (JStr s) = int_of_str s"
| "py_int v = Inl TypeError"

text \<open>\<open>float(v)\<close>: \<open>TypeError\<close> for \<open>None\<close>, a list or a dict.\<close>

fun py_float :: "json \<Rightarrow> exn + pyfloat" where
  "py_float (JFloat x) = Inr x"
| "py_float (JInt n) = float_of_int n"
| "py_float (JBool b) = Inr (Finite False (if b then 1 else 0))"
| "py_float (JStr s) = float_of_str s"
| "py_float v = Inl TypeError"

text \<open>
  \<open>key in v\<close> for a \<open>str\<close> key: a key of a dict, an element of a list, a substring of a
  string; \<open>TypeError\<close> for an object that is not a container.
\<close>

fun py_contains :: "json \<Rightarrow> string \<Rightarrow> exn + bool" where
  "py_contains (JDict kvs) key = Inr (map_of kvs key \<noteq> None)"
| "py_contains (JList xs) key = Inr (JStr key \<in> set xs)"
| "py_contains (JStr s) key = Inr (sublist key s)"
| "py_contains v key = Inl TypeError"

text \<open>\<open>v[key]\<close> for a \<open>str\<close> key: only a dict can be subscripted by a string.\<close>

fun py_getitem :: "json \<Rightarrow> string \<Rightarrow> exn + json" where
  "py_getitem (JDict kvs) key =
     (case map_of kvs key of None \<Rightarrow> Inl KeyError | Some v \<Rightarrow> Inr v)"
| "py_getitem v key = Inl TypeError"

text \<open>\<open>v[0]\<close>: \<open>IndexError\<close> on an empty list or string; a JSON dict has no key \<open>0\<close>.\<close>

fun py_getitem0 :: "json \<Rightarrow> exn + json" where
  "py_getitem0 (JList xs) = (case xs of [] \<Rightarrow> Inl IndexError | x # r \<Rightarrow> Inr x)"
| "py_getitem0 (JStr s) = (case s of [] \<Rightarrow> Inl IndexError | c # r \<Rightarrow> Inr (JStr [c]))"
| "py_getitem0 (JDict kvs) = Inl KeyError"
| "py_getitem0 v = Inl TypeError"

section \<open>The upstream services and what a run leaves behind\<close>

text \<open>
  What one \<open>requests.get\<close> meets. \<open>NoReply\<close>: the call itself raises (connection error,
  timeout). \<open>Reply ok body js\<close>: a response whose status passes \<open>raise_for_status()\<close> iff
  \<open>ok\<close>, whose \<open>.text\<close> is \<open>body\<close>, and whose \<open>.json()\<close> returns \<open>d\<close> when \<open>js = Some d\<close> and
  raises \<open>JSONDecodeError\<close> when \<open>js = None\<close>.
\<close>

datatype http_reply = NoReply | Reply bool string "json option"

text \<open>
  One invocation of \<open>get_nexa_price\<close> issues at most four requests, in this order: the
  MEXC ticker, the CoinGecko markets endpoint for the price, the explorer, and the
  CoinGecko markets endpoint again for the supply. The upstream is the reply each of
  them would get.
\<close>

record upstream =
  mexc_reply :: http_reply
  cg_price_reply :: http_reply
  explorer_reply :: http_reply
  cg_supply_reply :: http_reply

text \<open>
  The effects of a run, in the order they happen: the requests sent and the calls to
  \<open>logging\<close> (one constructor per call site, with the values it is given).
\<close>

datatype endpoint = Explorer | CoinGecko | Mexc

datatype level = DEBUG | INFO | WARNING | ERROR

datatype logmsg =
    CG_unexpected_format json
  | CG_supply_error exn
  | Raw_coinsupply string
  | Not_JSON_number
  | Explorer_supply_error exn
  | Using_CG_supply int
  | Fallback_manual int
  | MEXC_unexpected_format json
  | MEXC_error exn
  | Fallback_CG_price
  | CG_price_unexpected_format json
  | CG_price_error exn

datatype event = Get endpoint | Log level logmsg

type_synonym trace = "event list"

text \<open>
  \<open>requests.get(...)\<close>, \<open>raise_for_status()\<close> and \<open>.json()\<close> in a row, as lines 27-29, 74-76
  and 90-92 have them.
\<close>

definition response_json :: "json option \<Rightarrow> exn + json" where
  "response_json js = (case js of None \<Rightarrow> Inl JSONDecodeError | Some d \<Rightarrow> Inr d)"

definition fetch_json :: "http_reply \<Rightarrow> exn + json" where
  "fetch_json r =
     (case r of
        NoReply \<Rightarrow> Inl RequestException
      | Reply ok body js \<Rightarrow> if ok then response_json js else Inl HTTPError)"

text \<open>
  How the body of a \<open>try\<close> block of a fetcher ends: it returns a value, it falls through
  its \<open>if\<close> to the warning about the format of \<open>data\<close>, or it raises.
\<close>

datatype 'a attempt = Returned 'a | Unexpected json | Raised exn

definition attempted :: "exn + 'a \<Rightarrow> 'a attempt" where
  "attempted m = (case m of Inl e \<Rightarrow> Raised e | Inr v \<Rightarrow> Returned v)"

section \<open>The bot\<close>

subsection \<open>\<open>MANUAL_CIRC_SUPPLY\<close> (line 19)\<close>

definition MANUAL_CIRC_SUPPLY :: int where
  "MANUAL_CIRC_SUPPLY = 8000000000000"

subsection \<open>\<open>get_cg_supply\<close> (lines 22-35) and \<open>get_cg_price\<close> (lines 85-98)\<close>

text \<open>
  The condition of lines 30 and 93, \<open>data and isinstance(data, list) and key in data[0]\<close>,
  evaluated left to right with short circuit: \<open>data[0]\<close> is taken only after the two
  tests before it have passed.
\<close>

definition cg_guard :: "string \<Rightarrow> json \<Rightarrow> exn + bool" where
  "cg_guard key data =
     (if \<not> truthy data then Inr False
      else if \<not> is_list data then Inr False
      else and_then (py_getitem0 data) (\<lambda>first. py_contains first key))"

text \<open>\<open>data[0][key]\<close>.\<close>

definition cg_item :: "string \<Rightarrow> json \<Rightarrow> exn + json" where
  "cg_item key data = and_then (py_getitem0 data) (\<lambda>first. py_getitem first key)"

text \<open>The bodies of the two \<open>try\<close> blocks, lines 27-32 and 90-95.\<close>

definition cg_supply_try :: "http_reply \<Rightarrow> int attempt" where
  "cg_supply_try r =
     (case fetch_json r of
        Inl e \<Rightarrow> Raised e
      | Inr data \<Rightarrow>
          (case cg_guard ''circulating_supply'' data of
             Inl e \<Rightarrow> Raised e
           | Inr True \<Rightarrow> attempted (and_then (cg_item ''circulating_supply'' data) py_int)
           | Inr False \<Rightarrow> Unexpected data))"

definition get_cg_supply :: "http_reply \<Rightarrow> trace \<Rightarrow> int option \<times> trace" where
  "get_cg_supply r t =
     (let t1 = t @ [Get CoinGecko]
      in case cg_supply_try r of
           Returned n \<Rightarrow> (Some n, t1)
         | Unexpected data \<Rightarrow> (None, t1 @ [Log WARNING (CG_unexpected_format data)])
         | Raised e \<Rightarrow> (None, t1 @ [Log WARNING (CG_supply_error e)]))"

definition cg_price_try :: "http_reply \<Rightarrow> pyfloat attempt" where
  "cg_price_try r =
     (case fetch_json r of
        Inl e \<Rightarrow> Raised e
      | Inr data \<Rightarrow>
          (case cg_guard ''current_price'' data of
             Inl e \<Rightarrow> Raised e
           | Inr True \<Rightarrow> attempted (and_then (cg_item ''current_price'' data) py_float)
           | Inr False \<Rightarrow> Unexpected data))"

definition get_cg_price :: "http_reply \<Rightarrow> trace \<Rightarrow> pyfloat option \<times> trace" where
  "get_cg_price r t =
     (let t1 = t @ [Get CoinGecko]
      in case cg_price_try r of
           Returned p \<Rightarrow> (Some p, t1)
         | Unexpected data \<Rightarrow> (None, t1 @ [Log WARNING (CG_price_unexpected_format data)])
         | Raised e \<Rightarrow> (None, t1 @ [Log ERROR (CG_price_error e)]))"

subsection \<open>\<open>get_mexc_price\<close> (lines 70-82)\<close>

definition mexc_guard :: "json \<Rightarrow> exn + bool" where
  "mexc_guard data = (if \<not> is_dict data then Inr False else py_contains data ''price'')"

definition mexc_price_try :: "http_reply \<Rightarrow> pyfloat attempt" where
  "mexc_price_try r =
     (case fetch_json r of
        Inl e \<Rightarrow> Raised e
      | Inr data \<Rightarrow>
          (case mexc_guard data of
             Inl e \<Rightarrow> Raised e
           | Inr True \<Rightarrow> attempted (and_then (py_getitem data ''price'') py_float)
           | Inr False \<Rightarrow> Unexpected data))"

definition get_mexc_price :: "http_reply \<Rightarrow> trace \<Rightarrow> pyfloat option \<times> trace" where
  "get_mexc_price r t =
     (let t1 = t @ [Get Mexc]
      in case mexc_price_try r of
           Returned p \<Rightarrow> (Some p, t1)
         | Unexpected data \<Rightarrow> (None, t1 @ [Log WARNING (MEXC_unexpected_format data)])
         | Raised e \<Rightarrow> (None, t1 @ [Log ERROR (MEXC_error e)]))"

subsection \<open>\<open>get_circ_supply\<close> (lines 38-67)\<close>

text \<open>
  The outer \<open>try\<close> block, lines 42-54. After the request and the \<open>info\<close> call, the inner
  \<open>try\<close> returns \<open>int(r.json())\<close>; its \<open>except ValueError\<close> handles a \<open>ValueError\<close> only
  (logging at \<open>debug\<close> level and going on to line 54, \<open>int(r.text.strip())\<close>), and any other
  exception leaves the outer block at once.
\<close>

definition explorer_try :: "http_reply \<Rightarrow> trace \<Rightarrow> (exn + int) \<times> trace" where
  "explorer_try r t =
     (let t1 = t @ [Get Explorer]
      in case r of
           NoReply \<Rightarrow> (Inl RequestException, t1)
         | Reply ok body js \<Rightarrow>
             if \<not> ok then (Inl HTTPError, t1)
             else let t2 = t1 @ [Log INFO (Raw_coinsupply body)]
                  in case and_then (response_json js) py_int of
                       Inr n \<Rightarrow> (Inr n, t2)
                     | Inl e \<Rightarrow>
                         if is_ValueError e
                         then (int_of_str (py_strip body), t2 @ [Log DEBUG Not_JSON_number])
                         else (Inl e, t2))"

definition get_circ_supply :: "upstream \<Rightarrow> trace \<Rightarrow> int \<times> trace" where
  "get_circ_supply w t =
     (case explorer_try (explorer_reply w) t of
        (Inr n, t1) \<Rightarrow> (n, t1)
      | (Inl e, t1) \<Rightarrow>
          (case get_cg_supply (cg_supply_reply w) (t1 @ [Log ERROR (Explorer_supply_error e)]) of
             (Some cg_supply, t2) \<Rightarrow> (cg_supply, t2 @ [Log INFO (Using_CG_supply cg_supply)])
           | (None, t2) \<Rightarrow>
               (MANUAL_CIRC_SUPPLY, t2 @ [Log WARNING (Fallback_manual MANUAL_CIRC_SUPPLY)])))"

subsection \<open>\<open>get_nexa_price\<close> (lines 109-147)\<close>

text \<open>
  Lines 112-118: the price and the label of the source it came from, or \<open>None\<close> for the
  price when both fetchers returned \<open>None\<close>.
\<close>

definition fetch_price :: "upstream \<Rightarrow> trace \<Rightarrow> (pyfloat option \<times> string) \<times> trace" where
  "fetch_price w t =
     (case get_mexc_price (mexc_reply w) t of
        (Some p, t1) \<Rightarrow> ((Some p, ''MEXC''), t1)
      | (None, t1) \<Rightarrow>
          (case get_cg_price (cg_price_reply w) (t1 @ [Log INFO Fallback_CG_price]) of
             (nexa_price, t2) \<Rightarrow> ((nexa_price, ''CoinGecko''), t2)))"

text \<open>Line 121; the emoji U+1F6A8 is the four bytes \<open>F0 9F 9A A8\<close>.\<close>

definition error_marker :: string where
  "error_marker = [CHR 0xF0, CHR 0x9F, CHR 0x9A, CHR 0xA8]"

definition error_message :: string where
  "error_message = error_marker @ '' Error: Unable to fetch price from MEXC or CoinGecko.''"

text \<open>Lines 124-130: the derived quantities. Each mixed operation may raise.\<close>

definition market_cap :: "pyfloat \<Rightarrow> int \<Rightarrow> exn + pyfloat" where
  "market_cap nexa_price circ_supply = mul_float_int nexa_price circ_supply"

definition circ_supply_trillions :: "int \<Rightarrow> exn + pyfloat" where
  "circ_supply_trillions circ_supply = truediv_int_int circ_supply 1000000000000"

definition market_cap_millions :: "pyfloat \<Rightarrow> exn + pyfloat" where
  "market_cap_millions mc = div_float_int mc 1000000"

definition price_per_million :: "pyfloat \<Rightarrow> exn + pyfloat" where
  "price_per_million nexa_price = mul_float_int nexa_price 1000000"

definition price_per_billion :: "pyfloat \<Rightarrow> exn + pyfloat" where
  "price_per_billion nexa_price = mul_float_int nexa_price 1000000000"

text \<open>Lines 133-136 and 139-145: the two f-strings.\<close>

definition market_cap_text :: "pyfloat \<Rightarrow> pyfloat \<Rightarrow> string" where
  "market_cap_text mcm cst =
     ''Market Cap: $'' @ format_f 2 True mcm @ ''M'' @ [newline]
     @ ''Circ Supply: '' @ format_f 3 False cst @ ''T NEXA''"

definition message :: "string \<Rightarrow> pyfloat \<Rightarrow> pyfloat \<Rightarrow> pyfloat \<Rightarrow> string \<Rightarrow> string" where
  "message source nexa_price ppm ppb mct =
     ''NEXA/USDT Price ('' @ source @ '')'' @ [newline, newline]
     @ format_f 8 False nexa_price @ ''$ per NEXA'' @ [newline]
     @ format_f 2 True ppm @ ''$ per 1M NEXA'' @ [newline]
     @ format_f 0 True ppb @ ''$ per 1B NEXA'' @ [newline, newline]
     @ mct"

text \<open>Lines 124-145 together: the unescaped message, or the exception raised on the way.\<close>

definition render :: "string \<Rightarrow> pyfloat \<Rightarrow> int \<Rightarrow> exn + string" where
  "render source nexa_price circ_supply =
     and_then (market_cap nexa_price circ_supply) (\<lambda>mc.
     and_then (circ_supply_trillions circ_supply) (\<lambda>cst.
     and_then (market_cap_millions mc) (\<lambda>mcm.
     and_then (price_per_million nexa_price) (\<lambda>ppm.
     and_then (price_per_billion nexa_price) (\<lambda>ppb.
       Inr (message source nexa_price ppm ppb (market_cap_text mcm cst)))))))"

text \<open>
  The whole function. Its result is the string it returns, or the exception that leaves
  it: lines 123-147 stand outside every \<open>try\<close>.
\<close>

definition get_nexa_price :: "upstream \<Rightarrow> trace \<Rightarrow> (exn + string) \<times> trace" where
  "get_nexa_price w t =
     (case fetch_price w t of
        ((None, source), t1) \<Rightarrow> (Inr error_message, t1)
      | ((Some nexa_price, source), t1) \<Rightarrow>
          (case get_circ_supply w t1 of
             (circ_supply, t2) \<Rightarrow>
               (and_then (render source nexa_price circ_supply)
                  (\<lambda>m. Inr (escape_markdown_v2 m)), t2)))"

section \<open>The worked example\<close>

text \<open>
  The float \<open>0.00012345\<close> (the binary64 value nearest to 12345/10^8, which is what
  \<open>float('0.00012345')\<close> returns) and the report for it and a supply of 8,000,000,000,000,
  before escaping.
\<close>

definition example_price :: pyfloat where
  "example_price = Finite False (569312638974861 / 4611686018427387904)"

definition example_report :: string where
  "example_report =
     ''NEXA/USDT Price (MEXC)'' @ [newline, newline]
     @ ''0.00012345$ per NEXA'' @ [newline]
     @ ''123.45$ per 1M NEXA'' @ [newline]
     @ ''123,450$ per 1B NEXA'' @ [newline, newline]
     @ ''Market Cap: $987.60M'' @ [newline]
     @ ''Circ Supply: 8.000T NEXA''"

section \<open>Truncation\<close>

text \<open>
  The reference \<open>int()\<close> of a float is compared with: the number a finite float stands
  for, and its truncation toward zero (the floor of a non-negative number, the ceiling of
  a negative one).
\<close>

definition float_value :: "bool \<Rightarrow> rat \<Rightarrow> rat" where
  "float_value s m = (if s then - m else m)"

definition truncate_toward_zero :: "rat \<Rightarrow> int" where
  "truncate_toward_zero v = (if 0 \<le> v then \<lfloor>v\<rfloor> else \<lceil>v\<rceil>)"

section \<open>Example upstreams\<close>

text \<open>
  Replies used to exercise the theorems below: the MEXC ticker object, a CoinGecko
  markets list (with a fractional supply), explorer bodies in several formats, and two
  failures (no connection; status 500).
\<close>

definition quoted :: "string \<Rightarrow> string" where
  "quoted s = CHR 0x22 # s @ [CHR 0x22]"

definition mexc_ticker :: http_reply where
  "mexc_ticker =
     Reply True
       (''{'' @ quoted ''symbol'' @ '':'' @ quoted ''NEXAUSDT'' @ '','' @ quoted ''price'' @ '':''
         @ quoted ''0.00012345'' @ ''}'')
       (Some (JDict [(''symbol'', JStr ''NEXAUSDT''), (''price'', JStr ''0.00012345'')]))"

definition cg_markets :: http_reply where
  "cg_markets =
     Reply True
       (''[{'' @ quoted ''id'' @ '':'' @ quoted ''nexa'' @ '','' @ quoted ''current_price''
         @ '':0.00012345,'' @ quoted ''circulating_supply'' @ '':7999999999999.75}]'')
       (Some (JList [JDict [(''id'', JStr ''nexa''),
                            (''current_price'', JFloat (Finite False (12345 / 100000000))),
                            (''circulating_supply'', JFloat (Finite False (31999999999999 / 4)))]]))"

definition cg_empty :: http_reply where
  "cg_empty = Reply True ''[]'' (Some (JList []))"

definition explorer_number :: http_reply where
  "explorer_number = Reply True ''8000000000000'' (Some (JInt 8000000000000))"



definition explorer_fraction :: http_reply where
  "explorer_fraction =
     Reply True ''-8000000000000.75'' (Some (JFloat (Finite True (32000000000003 / 4))))"

definition server_error :: http_reply where
  "server_error = Reply False ''Internal Server Error'' None"

definition upstream_of :: "http_reply \<Rightarrow> http_reply \<Rightarrow> http_reply \<Rightarrow> http_reply \<Rightarrow> upstream" where
  "upstream_of m cp ex cs =
     \<lparr>mexc_reply = m, cg_price_reply = cp, explorer_reply = ex, cg_supply_reply = cs\<rparr>"

section \<open>Properties of the escaping loop\<close>

lemma str_replace_escape_one:
  "str_replace c [backslash, c] s = concat (map (escape_one [c]) s)"
proof -
  have "(\<lambda>x. if x = c then [backslash, c] else [x]) = escape_one [c]"
    by (auto simp: escape_one_def)
  then show ?thesis by (simp add: str_replace_def)
qed

lemma concat_map_concat_map:
  "concat (map f (concat (map g s))) = concat (map (\<lambda>x. concat (map f (g x))) s)"
  by (induction s) auto

lemma escape_one_Cons:
  assumes "backslash \<notin> set cs" "c \<notin> set cs" "backslash \<noteq> c"
  shows "concat (map (escape_one cs) (escape_one [c] x)) = escape_one (c # cs) x"
  using assms by (auto simp: escape_one_def)

lemma foldl_replace_single_pass:
  "distinct cs \<Longrightarrow> backslash \<notin> set cs \<Longrightarrow>
   foldl (\<lambda>t char. str_replace char [backslash, char] t) s cs
     = concat (map (escape_one cs) s)"
proof (induction cs arbitrary: s)
  case Nil
  show ?case by (simp add: escape_one_def)
next
  case (Cons c cs)
  have "foldl (\<lambda>t char. str_replace char [backslash, char] t) s (c # cs)
        = concat (map (escape_one cs) (concat (map (escape_one [c]) s)))"
    using Cons by (simp add: str_replace_escape_one)
  also have "\<dots> = concat (map (\<lambda>x. concat (map (escape_one cs) (escape_one [c] x))) s)"
    by (rule concat_map_concat_map)
  also have "\<dots> = concat (map (escape_one (c # cs)) s)"
    using Cons.prems by (auto simp: escape_one_Cons cong: map_cong)
  finally show ?case .
qed

lemma escape_chars_distinct: "distinct escape_chars \<and> backslash \<notin> set escape_chars"
  by (simp add: escape_chars_def backslash_def)

lemma escape_single_pass: "escape_markdown_v2 s = escape_pass s"
  unfolding escape_markdown_v2_def escape_pass_def using escape_chars_distinct
  by (simp add: foldl_replace_single_pass)

lemma escape_chars_not_backslash: "c \<in> set escape_chars \<Longrightarrow> c \<noteq> backslash"
  using escape_chars_distinct by auto

lemma length_escape_pass:
  "length (escape_pass s) = length s + length (filter (\<lambda>c. c \<in> set escape_chars) s)"
  by (induction s) (auto simp: escape_pass_def escape_one_def)

lemma filter_escape_pass:
  "filter (\<lambda>c. c \<in> set escape_chars) (escape_pass s) = filter (\<lambda>c. c \<in> set escape_chars) s"
  using escape_chars_distinct
  by (induction s) (auto simp: escape_pass_def escape_one_def)

text \<open>Escaping an escaped text puts a second backslash before every reserved character.\<close>

lemma escape_pass_twice:
  "escape_pass (escape_pass s)
     = concat (map (\<lambda>x. if x \<in> set escape_chars then [backslash, backslash, x] else [x]) s)"
  using escape_chars_distinct
  by (induction s) (auto simp: escape_pass_def escape_one_def)

lemma escape_pass_not_idempotent:
  assumes "c \<in> set s" "c \<in> set escape_chars"
  shows "length (escape_pass s) < length (escape_pass (escape_pass s))"
proof -
  have "filter (\<lambda>c. c \<in> set escape_chars) s \<noteq> []"
    using assms by (auto simp: filter_empty_conv)
  then have "0 < length (filter (\<lambda>c. c \<in> set escape_chars) s)"
    by simp
  then show ?thesis
    by (simp add: length_escape_pass [of "escape_pass s"] filter_escape_pass)
qed

section \<open>What a formatted number is made of\<close>

lemma digit_char_is_digit: "d < 10 \<Longrightarrow> is_digit (digit_char d)"
  unfolding digit_char_def is_digit_def by (rule nth_mem) simp

lemma dec_digits_are_digits: "c \<in> set (dec_digits n) \<Longrightarrow> is_digit c"
proof (induction n rule: dec_digits.induct)
  case (1 n)
  show ?case
  proof (cases "n < 10")
    case True
    with "1.prems" show ?thesis
      by (simp add: dec_digits.simps [of n] digit_char_is_digit)
  next
    case False
    with "1.prems" "1.IH" show ?thesis
      by (auto simp: dec_digits.simps [of n] digit_char_is_digit)
  qed
qed

lemma commas_rev_chars: "set (commas_rev s) \<subseteq> insert CHR '','' (set s)"
  by (induction s rule: commas_rev.induct) auto

lemma group_thousands_chars: "set (group_thousands s) \<subseteq> insert CHR '','' (set s)"
  using commas_rev_chars [of "rev s"] by (simp add: group_thousands_def)

lemma is_digit_not_backslash: "is_digit c \<Longrightarrow> c \<noteq> backslash"
  by (auto simp: is_digit_def backslash_def)

lemma fixed_digits_are_digits: "c \<in> set (fixed_digits prec m) \<Longrightarrow> is_digit c"
  by (auto simp: fixed_digits_def Let_def is_digit_def dest: dec_digits_are_digits)

lemma format_f_chars:
  "c \<in> set (format_f prec grouping x) \<Longrightarrow> is_digit c \<or> c \<in> set ''-,.infa''"
proof (cases x)
  case (Finite s m)
  assume c: "c \<in> set (format_f prec grouping x)"
  let ?ds = "fixed_digits prec m"
  let ?k = "length ?ds - prec"
  from c Finite have "c = CHR ''-'' \<or> c = CHR ''.'' \<or> c \<in> set (group_thousands (take ?k ?ds))
      \<or> c \<in> set (take ?k ?ds) \<or> c \<in> set (drop ?k ?ds)"
    by (auto simp: format_f_def Let_def split: if_splits)
  moreover have "c \<in> set (group_thousands (take ?k ?ds)) \<Longrightarrow> c = CHR '','' \<or> c \<in> set (take ?k ?ds)"
    using group_thousands_chars [of "take ?k ?ds"] by auto
  ultimately have "c = CHR ''-'' \<or> c = CHR ''.'' \<or> c = CHR '','' \<or> c \<in> set ?ds"
    by (auto dest: in_set_takeD in_set_dropD)
  then show ?thesis
    by (auto dest: fixed_digits_are_digits)
next
  case (Infinite s)
  assume "c \<in> set (format_f prec grouping x)"
  with Infinite show ?thesis by (auto simp: format_f_def split: if_splits)
next
  case NaN
  assume "c \<in> set (format_f prec grouping x)"
  with NaN show ?thesis by (auto simp: format_f_def)
qed

lemma format_f_no_backslash: "backslash \<notin> set (format_f prec grouping x)"
  using format_f_chars [of backslash prec grouping x] is_digit_not_backslash [of backslash]
  by (auto simp: backslash_def)

section \<open>The fetchers: results and traces\<close>

lemma get_cg_supply_result:
  "fst (get_cg_supply r t) = (case cg_supply_try r of Returned n \<Rightarrow> Some n | _ \<Rightarrow> None)"
  by (simp add: get_cg_supply_def Let_def split: attempt.splits)

lemma get_cg_price_result:
  "fst (get_cg_price r t) = (case cg_price_try r of Returned p \<Rightarrow> Some p | _ \<Rightarrow> None)"
  by (simp add: get_cg_price_def Let_def split: attempt.splits)

lemma get_mexc_price_result:
  "fst (get_mexc_price r t) = (case mexc_price_try r of Returned p \<Rightarrow> Some p | _ \<Rightarrow> None)"
  by (simp add: get_mexc_price_def Let_def split: attempt.splits)

lemma explorer_try_result: "fst (explorer_try r t) = fst (explorer_try r t')"
  by (simp add: explorer_try_def Let_def split: http_reply.splits sum.splits)

lemma get_circ_supply_result:
  "fst (get_circ_supply w t) =
     (case fst (explorer_try (explorer_reply w) t) of
        Inr n \<Rightarrow> n
      | Inl e \<Rightarrow> (case cg_supply_try (cg_supply_reply w) of
                   Returned n \<Rightarrow> n
                 | _ \<Rightarrow> MANUAL_CIRC_SUPPLY))"
proof (cases "explorer_try (explorer_reply w) t")
  case (Pair res t1)
  show ?thesis
  proof (cases res)
    case (Inr n)
    with Pair show ?thesis by (simp add: get_circ_supply_def)
  next
    case (Inl e)
    let ?t = "t1 @ [Log ERROR (Explorer_supply_error e)]"
    obtain c t2 where c: "get_cg_supply (cg_supply_reply w) ?t = (c, t2)"
      by (cases "get_cg_supply (cg_supply_reply w) ?t")
    have "c = (case cg_supply_try (cg_supply_reply w) of Returned n \<Rightarrow> Some n | _ \<Rightarrow> None)"
      using get_cg_supply_result [of "cg_supply_reply w" ?t] c by simp
    with Pair Inl c show ?thesis
      by (simp add: get_circ_supply_def split: attempt.splits)
  qed
qed

lemma get_circ_supply_independent: "fst (get_circ_supply w t) = fst (get_circ_supply w t')"
  using explorer_try_result [of "explorer_reply w" t t'] by (simp add: get_circ_supply_result)

lemma fetch_price_result:
  "fst (fetch_price w t) =
     (case mexc_price_try (mexc_reply w) of
        Returned p \<Rightarrow> (Some p, ''MEXC'')
      | _ \<Rightarrow> (case cg_price_try (cg_price_reply w) of
                Returned p \<Rightarrow> (Some p, ''CoinGecko'')
              | _ \<Rightarrow> (None, ''CoinGecko'')))"
proof -
  obtain m t1 where m: "get_mexc_price (mexc_reply w) t = (m, t1)"
    by (cases "get_mexc_price (mexc_reply w) t")
  let ?t = "t1 @ [Log INFO Fallback_CG_price]"
  obtain c t2 where c: "get_cg_price (cg_price_reply w) ?t = (c, t2)"
    by (cases "get_cg_price (cg_price_reply w) ?t")
  have "m = (case mexc_price_try (mexc_reply w) of Returned p \<Rightarrow> Some p | _ \<Rightarrow> None)"
    using get_mexc_price_result [of "mexc_reply w" t] m by simp
  moreover have "c = (case cg_price_try (cg_price_reply w) of Returned p \<Rightarrow> Some p | _ \<Rightarrow> None)"
    using get_cg_price_result [of "cg_price_reply w" ?t] c by simp
  ultimately show ?thesis
    using m c by (simp add: fetch_price_def split: attempt.splits)
qed

lemma get_nexa_price_result:
  "fst (get_nexa_price w t) =
     (case fst (fetch_price w t) of
        (None, source) \<Rightarrow> Inr error_message
      | (Some nexa_price, source) \<Rightarrow>
          and_then (render source nexa_price (fst (get_circ_supply w [])))
            (\<lambda>m. Inr (escape_markdown_v2 m)))"
proof -
  obtain p src t1 where f: "fetch_price w t = ((p, src), t1)"
    by (cases "fetch_price w t") auto
  obtain n t2 where g: "get_circ_supply w t1 = (n, t2)"
    by (cases "get_circ_supply w t1")
  have "n = fst (get_circ_supply w [])"
    using get_circ_supply_independent [of w t1 "[]"] g by simp
  with f g show ?thesis
    by (simp add: get_nexa_price_def split: option.splits)
qed

section \<open>The supply fetcher\<close>

text \<open>
  When the CoinGecko tier returns a value: the reply passed the status check, its JSON is
  a list whose first element is a dict with the key, and the value is what \<open>int()\<close> makes
  of the item under that key.
\<close>

lemma cg_guard_True:
  "cg_guard key data = Inr True \<Longrightarrow>
   \<exists>first rest. data = JList (first # rest) \<and> py_contains first key = Inr True"
  by (cases data) (auto simp: cg_guard_def and_then_def split: list.splits if_splits)

lemma cg_item_Inr:
  "cg_item key (JList (first # rest)) = Inr v \<longleftrightarrow>
   (\<exists>kvs. first = JDict kvs \<and> map_of kvs key = Some v)"
  by (cases first) (auto simp: cg_item_def and_then_def split: option.splits)

lemma cg_supply_try_Returned:
  "cg_supply_try r = Returned n \<longleftrightarrow>
   (\<exists>body kvs rest v. r = Reply True body (Some (JList (JDict kvs # rest)))
      \<and> map_of kvs ''circulating_supply'' = Some v \<and> py_int v = Inr n)"
  (is "?L \<longleftrightarrow> ?R")
proof
  assume ?L
  then obtain data where d: "fetch_json r = Inr data"
      and g: "cg_guard ''circulating_supply'' data = Inr True"
      and i: "and_then (cg_item ''circulating_supply'' data) py_int = Inr n"
    by (auto simp: cg_supply_try_def attempted_def split: sum.splits bool.splits)
  from g obtain first rest where l: "data = JList (first # rest)"
    using cg_guard_True by blast
  from i obtain v where v: "cg_item ''circulating_supply'' data = Inr v" "py_int v = Inr n"
    by (auto simp: and_then_def split: sum.splits)
  from v(1) l obtain kvs where k: "first = JDict kvs" "map_of kvs ''circulating_supply'' = Some v"
    using cg_item_Inr by blast
  from d obtain body where "r = Reply True body (Some data)"
    by (auto simp: fetch_json_def response_json_def split: http_reply.splits if_splits option.splits)
  with l k v(2) show ?R by blast
next
  assume ?R
  then show ?L
    by (auto simp: cg_supply_try_def fetch_json_def response_json_def cg_guard_def cg_item_def
        and_then_def attempted_def)
qed



section \<open>The price fetcher\<close>

text \<open>
  When a price tier returns a value: the reply passed the status check, its JSON has the
  expected shape, and the value is what \<open>float()\<close> makes of the item under the key.
\<close>

lemma mexc_price_try_Returned:
  "mexc_price_try r = Returned p \<longleftrightarrow>
   (\<exists>body kvs v. r = Reply True body (Some (JDict kvs))
      \<and> map_of kvs ''price'' = Some v \<and> py_float v = Inr p)"
  (is "?L \<longleftrightarrow> ?R")
proof
  assume ?L
  then obtain data where d: "fetch_json r = Inr data"
      and g: "mexc_guard data = Inr True"
      and i: "and_then (py_getitem data ''price'') py_float = Inr p"
    by (auto simp: mexc_price_try_def attempted_def split: sum.splits bool.splits)
  from g obtain kvs where k: "data = JDict kvs"
    by (cases data) (auto simp: mexc_guard_def)
  from i k obtain v where v: "map_of kvs ''price'' = Some v" "py_float v = Inr p"
    by (auto simp: and_then_def split: sum.splits option.splits)
  from d obtain body where "r = Reply True body (Some data)"
    by (auto simp: fetch_json_def response_json_def split: http_reply.splits if_splits option.splits)
  with k v show ?R by blast
next
  assume ?R
  then show ?L
    by (auto simp: mexc_price_try_def fetch_json_def response_json_def mexc_guard_def
        and_then_def attempted_def)
qed




section \<open>The traces of the price path\<close>

lemma get_mexc_price_trace:
  "\<exists>evs. snd (get_mexc_price r t) = t @ Get Mexc # evs \<and> (\<forall>ev \<in> set evs. \<exists>l m. ev = Log l m)"
  by (auto simp: get_mexc_price_def Let_def split: attempt.splits)

lemma get_cg_price_trace:
  "\<exists>evs. snd (get_cg_price r t) = t @ Get CoinGecko # evs \<and> (\<forall>ev \<in> set evs. \<exists>l m. ev = Log l m)"
  by (auto simp: get_cg_price_def Let_def split: attempt.splits)

text \<open>Every invocation of the supply fetcher starts with a request to the explorer.\<close>

lemma explorer_try_trace: "\<exists>evs. snd (explorer_try r t) = t @ Get Explorer # evs"
  by (auto simp: explorer_try_def Let_def split: http_reply.splits sum.splits)

lemma get_cg_supply_trace: "\<exists>evs. snd (get_cg_supply r t) = t @ evs"
  by (auto simp: get_cg_supply_def Let_def split: attempt.splits)

lemma get_circ_supply_trace: "\<exists>evs. snd (get_circ_supply w t) = t @ Get Explorer # evs"
proof (cases "explorer_try (explorer_reply w) t")
  case (Pair res t1)
  obtain evs where t1: "t1 = t @ Get Explorer # evs"
    using explorer_try_trace [of "explorer_reply w" t] Pair by auto
  show ?thesis
  proof (cases res)
    case (Inr n)
    with Pair t1 show ?thesis by (simp add: get_circ_supply_def)
  next
    case (Inl e)
    let ?t = "t1 @ [Log ERROR (Explorer_supply_error e)]"
    obtain c t2 where c: "get_cg_supply (cg_supply_reply w) ?t = (c, t2)"
      by (cases "get_cg_supply (cg_supply_reply w) ?t")
    then obtain evs' where "t2 = ?t @ evs'"
      using get_cg_supply_trace [of "cg_supply_reply w" ?t] by auto
    with Pair Inl c t1 show ?thesis
      by (cases c) (simp_all add: get_circ_supply_def)
  qed
qed

text \<open>When both price tiers fail, the price path sends its two requests and nothing else.\<close>

lemma fetch_price_failure_trace:
  assumes "fst (fetch_price w t) = (None, source)"
  shows "\<exists>l1 m1 l2 m2. snd (fetch_price w t)
           = t @ [Get Mexc, Log l1 m1, Log INFO Fallback_CG_price, Get CoinGecko, Log l2 m2]"
proof -
  from assms have m: "\<forall>q. mexc_price_try (mexc_reply w) \<noteq> Returned q"
    and c: "\<forall>q. cg_price_try (cg_price_reply w) \<noteq> Returned q"
    by (auto simp: fetch_price_result split: attempt.splits)
  from m obtain l1 m1 where 1: "get_mexc_price (mexc_reply w) t = (None, t @ [Get Mexc, Log l1 m1])"
    by (cases "mexc_price_try (mexc_reply w)") (auto simp: get_mexc_price_def)
  let ?t = "(t @ [Get Mexc, Log l1 m1]) @ [Log INFO Fallback_CG_price]"
  from c obtain l2 m2 where 2: "get_cg_price (cg_price_reply w) ?t = (None, ?t @ [Get CoinGecko, Log l2 m2])"
    by (cases "cg_price_try (cg_price_reply w)") (auto simp: get_cg_price_def)
  from 1 2 show ?thesis
    by (auto simp: fetch_price_def)
qed

lemma error_message_marker: "prefix error_marker error_message"
  by (simp add: error_message_def)

lemma error_message_content:
  "\<not> sublist ''Market Cap'' error_message \<and> \<not> sublist ''Supply'' error_message
   \<and> \<not> sublist ''NEXA'' error_message \<and> \<not> sublist ''$'' error_message"
  by code_simp

text \<open>
  C4. When neither price tier returns a price, \<open>get_nexa_price\<close> returns the error message
  at once: the trace of the run is that of the price path (a request to MEXC and one to
  CoinGecko, with their log calls), so no request to the explorer is sent, whereas every
  invocation of \<open>get_circ_supply\<close> sends one first: the supply fetcher is not invoked. The
  message begins with the marker and has no market-cap or supply line.
\<close>

theorem no_price_no_supply:
  assumes "\<forall>q. mexc_price_try (mexc_reply w) \<noteq> Returned q"
      and "\<forall>q. cg_price_try (cg_price_reply w) \<noteq> Returned q"
  shows "fst (get_nexa_price w t) = Inr error_message
     \<and> snd (get_nexa_price w t) = snd (fetch_price w t)
     \<and> (\<exists>l1 m1 l2 m2. snd (get_nexa_price w t)
           = t @ [Get Mexc, Log l1 m1, Log INFO Fallback_CG_price, Get CoinGecko, Log l2 m2])
     \<and> (\<exists>evs. snd (get_nexa_price w t) = t @ evs \<and> Get Explorer \<notin> set evs)
     \<and> (\<exists>evs. snd (get_circ_supply w t) = t @ evs \<and> Get Explorer \<in> set evs)
     \<and> prefix error_marker error_message
     \<and> \<not> sublist ''Market Cap'' error_message \<and> \<not> sublist ''Supply'' error_message"
proof -
  from assms have f: "fst (fetch_price w t) = (None, ''CoinGecko'')"
    by (auto simp: fetch_price_result split: attempt.splits)
  then obtain t1 where f': "fetch_price w t = ((None, ''CoinGecko''), t1)"
    by (cases "fetch_price w t") auto
  then have g: "get_nexa_price w t = (Inr error_message, t1)"
    by (simp add: get_nexa_price_def)
  obtain l1 m1 l2 m2 where
    tr: "t1 = t @ [Get Mexc, Log l1 m1, Log INFO Fallback_CG_price, Get CoinGecko, Log l2 m2]"
    using fetch_price_failure_trace [OF f] f' by auto
  have "Get Explorer \<notin> set [Get Mexc, Log l1 m1, Log INFO Fallback_CG_price, Get CoinGecko, Log l2 m2]"
    by simp
  with tr have ne: "\<exists>evs. t1 = t @ evs \<and> Get Explorer \<notin> set evs"
    by blast
  obtain evs where "snd (get_circ_supply w t) = t @ Get Explorer # evs"
    using get_circ_supply_trace by blast
  then have "snd (get_circ_supply w t) = t @ (Get Explorer # evs) \<and> Get Explorer \<in> set (Get Explorer # evs)"
    by simp
  then have ge: "\<exists>evs. snd (get_circ_supply w t) = t @ evs \<and> Get Explorer \<in> set evs"
    by blast
  show ?thesis
    using g f' tr ne ge error_message_marker error_message_content by auto
qed

theorem no_price_no_supply_witness:
  "mexc_price_try NoReply = Raised RequestException
   \<and> cg_price_try server_error = Raised HTTPError
   \<and> get_nexa_price (upstream_of NoReply server_error explorer_number cg_markets) []
       = (Inr error_message,
          [Get Mexc, Log ERROR (MEXC_error RequestException), Log INFO Fallback_CG_price,
           Get CoinGecko, Log ERROR (CG_price_error HTTPError)])"
proof -
  let ?w = "upstream_of NoReply server_error explorer_number cg_markets"
  have a: "mexc_price_try NoReply = Raised RequestException"
    by code_simp
  have b: "cg_price_try server_error = Raised HTTPError"
    by code_simp
  have tr: "snd (fetch_price ?w []) = [Get Mexc, Log ERROR (MEXC_error RequestException),
      Log INFO Fallback_CG_price, Get CoinGecko, Log ERROR (CG_price_error HTTPError)]"
    by code_simp
  have "fst (get_nexa_price ?w []) = Inr error_message
      \<and> snd (get_nexa_price ?w []) = snd (fetch_price ?w [])"
    using no_price_no_supply [of ?w "[]"] a b by (simp add: upstream_of_def)
  with a b tr show ?thesis
    by (simp add: prod_eq_iff)
qed

section \<open>The guarded index of the CoinGecko fetchers\<close>












section \<open>Fractional supplies\<close>

lemma int_of_float_truncates:
  "0 \<le> m \<Longrightarrow> int_of_float (Finite s m) = Inr (truncate_toward_zero (float_value s m))"
  by (auto simp: int_of_float_def truncate_toward_zero_def float_value_def ceiling_minus)

text \<open>
  C10. A supply reported as a finite non-integer number is returned truncated toward zero:
  by the explorer tier when the explorer's JSON body is such a number, and by the CoinGecko
  tier (after any failure \<open>e\<close> of the explorer tier) when \<open>circulating_supply\<close> is such a
  number. The result is an integer in every case.
\<close>

theorem fractional_supply_truncated:
  assumes "0 \<le> m"
  shows "(explorer_reply w = Reply True body (Some (JFloat (Finite s m)))
            \<longrightarrow> fst (get_circ_supply w t) = truncate_toward_zero (float_value s m))
     \<and> (fst (explorer_try (explorer_reply w) t) = Inl e
          \<and> cg_supply_reply w = Reply True body' (Some (JList (JDict kvs # rest)))
          \<and> map_of kvs ''circulating_supply'' = Some (JFloat (Finite s m))
            \<longrightarrow> fst (get_circ_supply w t) = truncate_toward_zero (float_value s m))"
proof -
  have i: "py_int (JFloat (Finite s m)) = Inr (truncate_toward_zero (float_value s m))"
    using assms by (simp add: int_of_float_truncates)
  have 1: "explorer_reply w = Reply True body (Some (JFloat (Finite s m)))
      \<Longrightarrow> fst (explorer_try (explorer_reply w) t) = Inr (truncate_toward_zero (float_value s m))"
    using i by (simp add: explorer_try_def response_json_def and_then_def)
  have 2: "cg_supply_reply w = Reply True body' (Some (JList (JDict kvs # rest)))
      \<Longrightarrow> map_of kvs ''circulating_supply'' = Some (JFloat (Finite s m))
      \<Longrightarrow> cg_supply_try (cg_supply_reply w) = Returned (truncate_toward_zero (float_value s m))"
    using i by (simp only: cg_supply_try_Returned) blast
  show ?thesis
    using 1 2 by (auto simp: get_circ_supply_result)
qed

theorem fractional_supply_truncated_witness:
  "fst (get_circ_supply (upstream_of NoReply NoReply explorer_fraction NoReply) []) = - 8000000000000
   \<and> fst (explorer_try NoReply []) = Inl RequestException
   \<and> fst (get_circ_supply (upstream_of NoReply NoReply NoReply cg_markets) []) = 7999999999999"
proof -
  let ?w1 = "upstream_of NoReply NoReply explorer_fraction NoReply"
  let ?w2 = "upstream_of NoReply NoReply NoReply cg_markets"
  have m1: "(0::rat) \<le> 32000000000003 / 4" and m2: "(0::rat) \<le> 31999999999999 / 4"
    by simp_all
  have t1: "truncate_toward_zero (float_value True (32000000000003 / 4)) = - 8000000000000"
    by code_simp
  have t2: "truncate_toward_zero (float_value False (31999999999999 / 4)) = 7999999999999"
    by code_simp
  have e: "fst (explorer_try NoReply []) = Inl RequestException"
    by code_simp
  have 1: "fst (get_circ_supply ?w1 []) = - 8000000000000"
    using fractional_supply_truncated [OF m1, of ?w1 "''-8000000000000.75''" True "[]"] t1
    by (simp add: upstream_of_def explorer_fraction_def)
  have 2: "fst (get_circ_supply ?w2 []) = 7999999999999"
    using fractional_supply_truncated [OF m2, where w = ?w2 and t = "[]" and s = False
        and e = RequestException
        and kvs = "[(''id'', JStr ''nexa''),
                    (''current_price'', JFloat (Finite False (12345 / 100000000))),
                    (''circulating_supply'', JFloat (Finite False (31999999999999 / 4)))]"
        and rest = "[]"] t2 e
    by (simp add: upstream_of_def cg_markets_def)
  from 1 e 2 show ?thesis by simp
qed

section \<open>The explorer tier: JSON number first, then plain text\<close>









section \<open>The error message is sent unescaped\<close>

text \<open>
  C3 at the input where both price tiers fail: \<open>get_nexa_price\<close> returns the error message
  as it is. Its last character is the reserved \<open>.\<close>, preceded by \<open>o\<close> and not by a
  backslash; \<open>escape_markdown_v2\<close> would have changed the message.
\<close>

theorem error_message_not_escaped:
  "fst (get_nexa_price (upstream_of NoReply NoReply NoReply NoReply) []) = Inr error_message
   \<and> last error_message = CHR ''.''
   \<and> CHR ''.'' \<in> set escape_chars
   \<and> last (butlast error_message) = CHR ''o''
   \<and> escape_markdown_v2 error_message = butlast error_message @ [backslash, CHR ''.'']"
  by code_simp

section \<open>The report for the worked example\<close>

lemma example_market_cap:
  "market_cap example_price 8000000000000 = Inr (Finite False (8284589260799999 / 8388608))"
  by code_simp

lemma example_supply_trillions: "circ_supply_trillions 8000000000000 = Inr (Finite False 8)"
  by code_simp

lemma example_market_cap_millions:
  "market_cap_millions (Finite False (8284589260799999 / 8388608))
     = Inr (Finite False (2171755367183155 / 2199023255552))"
  by code_simp

lemma example_price_per_million:
  "price_per_million example_price = Inr (Finite False (2171755367183155 / 17592186044416))"
  by code_simp

lemma example_price_per_billion:
  "price_per_billion example_price = Inr (Finite False (8483419403059199 / 68719476736))"
  by code_simp

lemma example_message:
  "message ''MEXC'' example_price (Finite False (2171755367183155 / 17592186044416))
     (Finite False (8483419403059199 / 68719476736))
     (market_cap_text (Finite False (2171755367183155 / 2199023255552)) (Finite False 8))
   = example_report"
  by code_simp

lemma example_render: "render ''MEXC'' example_price 8000000000000 = Inr example_report"
  by (simp only: render_def and_then_def example_market_cap example_supply_trillions
      example_market_cap_millions example_price_per_million example_price_per_billion
      example_message sum.case)

lemma example_price_fetched: "mexc_price_try mexc_ticker = Returned example_price"
  by code_simp

lemma example_supply_fetched: "fst (explorer_try explorer_number []) = Inr 8000000000000"
  by code_simp

lemma example_output:
  "fst (get_nexa_price (upstream_of mexc_ticker NoReply explorer_number NoReply) [])
     = Inr (escape_markdown_v2 example_report)"
  using example_price_fetched example_supply_fetched example_render
  by (simp add: get_nexa_price_result fetch_price_result get_circ_supply_result
      upstream_of_def and_then_def)

text \<open>
  C6, as the code has it. For the price 0.00012345 and the supply 8,000,000,000,000 the
  market cap \<open>price * supply\<close> is 987,600,000 up to rounding (987.60 in millions), the
  price per million is 123.45 and the price per billion 123,450 up to rounding, and the
  supply in trillions is 8. The report before escaping prints the price with 8 decimals,
  the price per million with 2 decimals and separators, the price per billion with none,
  the market cap in millions with 2 decimals and the supply in trillions with 3; what
  \<open>get_nexa_price\<close> returns is that report escaped.
\<close>

theorem report_example:
  "float_of_str ''0.00012345'' = Inr example_price
   \<and> market_cap example_price 8000000000000 = Inr (Finite False (8284589260799999 / 8388608))
   \<and> \<bar>8284589260799999 / 8388608 - 987600000\<bar> < (1 / 1000000 :: rat)
   \<and> market_cap_millions (Finite False (8284589260799999 / 8388608))
       = Inr (Finite False (2171755367183155 / 2199023255552))
   \<and> \<bar>2171755367183155 / 2199023255552 - 9876 / 10\<bar> < (1 / 1000000 :: rat)
   \<and> price_per_million example_price = Inr (Finite False (2171755367183155 / 17592186044416))
   \<and> \<bar>2171755367183155 / 17592186044416 - 12345 / 100\<bar> < (1 / 1000000 :: rat)
   \<and> price_per_billion example_price = Inr (Finite False (8483419403059199 / 68719476736))
   \<and> \<bar>8483419403059199 / 68719476736 - 123450\<bar> < (1 / 1000000 :: rat)
   \<and> circ_supply_trillions 8000000000000 = Inr (Finite False 8)
   \<and> render ''MEXC'' example_price 8000000000000 = Inr example_report
   \<and> fst (get_nexa_price (upstream_of mexc_ticker NoReply explorer_number NoReply) [])
       = Inr (escape_markdown_v2 example_report)"
proof -
  have 1: "float_of_str ''0.00012345'' = Inr example_price"
    by code_simp
  have 2: "\<bar>8284589260799999 / 8388608 - 987600000\<bar> < (1 / 1000000 :: rat)"
    "\<bar>2171755367183155 / 2199023255552 - 9876 / 10\<bar> < (1 / 1000000 :: rat)"
    "\<bar>2171755367183155 / 17592186044416 - 12345 / 100\<bar> < (1 / 1000000 :: rat)"
    "\<bar>8483419403059199 / 68719476736 - 123450\<bar> < (1 / 1000000 :: rat)"
    by simp_all
  from 1 2 example_market_cap example_market_cap_millions example_price_per_million
    example_price_per_billion example_supply_trillions example_render example_output
  show ?thesis by blast
qed

text \<open>
  The claim as stated gives the market cap as about 987,600.00; the product is a thousand
  times that.
\<close>

theorem market_cap_example_not_987600:
  "\<not> (\<exists>mc. market_cap example_price 8000000000000 = Inr (Finite False mc) \<and> \<bar>mc - 987600\<bar> \<le> 1000)"
proof -
  have "\<not> \<bar>8284589260799999 / 8388608 - 987600\<bar> \<le> (1000 :: rat)"
    by simp
  then show ?thesis
    using example_market_cap by auto
qed

section \<open>Escaping twice, and escaping the report once\<close>

lemma fetch_price_source:
  "fst (fetch_price w t) = (p, source) \<Longrightarrow> source = ''MEXC'' \<or> source = ''CoinGecko''"
  by (auto simp: fetch_price_result split: attempt.splits)

lemma message_no_backslash:
  "backslash \<notin> set source \<Longrightarrow>
   backslash \<notin> set (message source p ppm ppb (market_cap_text mcm cst))"
  using format_f_no_backslash
  by (simp add: message_def market_cap_text_def) (simp add: backslash_def newline_def)

lemma render_no_backslash:
  assumes "backslash \<notin> set source" and "render source p n = Inr m"
  shows "backslash \<notin> set m"
  using assms message_no_backslash [of source]
  by (auto simp: render_def and_then_def split: sum.splits)

lemma render_has_reserved:
  assumes "render source p n = Inr m"
  shows "CHR ''('' \<in> set m"
  using assms by (auto simp: render_def and_then_def message_def split: sum.splits)

lemma escape_twice_differs:
  assumes "c \<in> set s" and "c \<in> set escape_chars"
  shows "escape_markdown_v2 (escape_markdown_v2 s) \<noteq> escape_markdown_v2 s"
  using escape_pass_not_idempotent [OF assms] by (auto simp: escape_single_pass)

text \<open>
  C7. Escaping is not idempotent: on every text with a reserved character a second
  application changes the result again, putting a second backslash before each reserved
  character. In \<open>get_nexa_price\<close>, whenever a report is rendered, the result is
  \<open>escape_markdown_v2\<close> applied to the complete rendered message: the message itself holds
  no backslash, so no fragment of it was escaped before, and the result is not the
  message escaped twice.
\<close>

theorem escape_not_idempotent_applied_once:
  "(c \<in> set s \<and> c \<in> set escape_chars \<longrightarrow>
      escape_markdown_v2 (escape_markdown_v2 s) \<noteq> escape_markdown_v2 s
      \<and> escape_markdown_v2 (escape_markdown_v2 s)
          = concat (map (\<lambda>x. if x \<in> set escape_chars then [backslash, backslash, x] else [x]) s))
   \<and> (fst (fetch_price w t) = (Some p, source)
        \<and> render source p (fst (get_circ_supply w [])) = Inr m \<longrightarrow>
      fst (get_nexa_price w t) = Inr (escape_markdown_v2 m)
      \<and> backslash \<notin> set m
      \<and> fst (get_nexa_price w t) \<noteq> Inr (escape_markdown_v2 (escape_markdown_v2 m)))"
proof -
  have 1: "c \<in> set s \<and> c \<in> set escape_chars \<longrightarrow>
      escape_markdown_v2 (escape_markdown_v2 s) \<noteq> escape_markdown_v2 s
      \<and> escape_markdown_v2 (escape_markdown_v2 s)
          = concat (map (\<lambda>x. if x \<in> set escape_chars then [backslash, backslash, x] else [x]) s)"
    using escape_twice_differs [of c s] by (simp add: escape_single_pass escape_pass_twice)
  have 2: "fst (get_nexa_price w t) = Inr (escape_markdown_v2 m)
      \<and> backslash \<notin> set m
      \<and> fst (get_nexa_price w t) \<noteq> Inr (escape_markdown_v2 (escape_markdown_v2 m))"
    if f: "fst (fetch_price w t) = (Some p, source)"
      and r: "render source p (fst (get_circ_supply w [])) = Inr m"
  proof -
    have g: "fst (get_nexa_price w t) = Inr (escape_markdown_v2 m)"
      using f r by (simp add: get_nexa_price_result and_then_def)
    have "source = ''MEXC'' \<or> source = ''CoinGecko''"
      using f by (rule fetch_price_source)
    then have "backslash \<notin> set source"
      by (auto simp: backslash_def)
    then have b: "backslash \<notin> set m"
      using r by (rule render_no_backslash)
    have "CHR ''('' \<in> set m" "CHR ''('' \<in> set escape_chars"
      using render_has_reserved [OF r] by (simp_all add: escape_chars_def)
    then have "escape_markdown_v2 (escape_markdown_v2 m) \<noteq> escape_markdown_v2 m"
      by (rule escape_twice_differs)
    with g b show ?thesis by simp
  qed
  from 1 2 show ?thesis by blast
qed

theorem escape_not_idempotent_applied_once_witness:
  "CHR ''.'' \<in> set ''1.5'' \<and> CHR ''.'' \<in> set escape_chars
   \<and> escape_markdown_v2 ''1.5'' = [CHR ''1'', backslash, CHR ''.'', CHR ''5'']
   \<and> escape_markdown_v2 (escape_markdown_v2 ''1.5'')
       = [CHR ''1'', backslash, backslash, CHR ''.'', CHR ''5'']
   \<and> escape_markdown_v2 (escape_markdown_v2 ''1.5'') \<noteq> escape_markdown_v2 ''1.5''
   \<and> fst (fetch_price (upstream_of mexc_ticker NoReply explorer_number NoReply) [])
       = (Some example_price, ''MEXC'')
   \<and> render ''MEXC'' example_price 8000000000000 = Inr example_report
   \<and> fst (get_nexa_price (upstream_of mexc_ticker NoReply explorer_number NoReply) [])
       = Inr (escape_markdown_v2 example_report)
   \<and> backslash \<notin> set example_report"
proof -
  let ?w = "upstream_of mexc_ticker NoReply explorer_number NoReply"
  have h: "CHR ''.'' \<in> set ''1.5''" "CHR ''.'' \<in> set escape_chars"
    by (simp_all add: escape_chars_def)
  have e1: "escape_markdown_v2 ''1.5'' = [CHR ''1'', backslash, CHR ''.'', CHR ''5'']"
    by code_simp
  have e2: "escape_markdown_v2 (escape_markdown_v2 ''1.5'')
      = [CHR ''1'', backslash, backslash, CHR ''.'', CHR ''5'']"
    by code_simp
  have f: "fst (fetch_price ?w []) = (Some example_price, ''MEXC'')"
    using example_price_fetched by (simp add: fetch_price_result upstream_of_def)
  have s: "fst (get_circ_supply ?w []) = 8000000000000"
    using example_supply_fetched by (simp add: get_circ_supply_result upstream_of_def)
  have a: "escape_markdown_v2 (escape_markdown_v2 ''1.5'') \<noteq> escape_markdown_v2 ''1.5''"
    using escape_not_idempotent_applied_once [of "CHR ''.''" "''1.5''"] h by blast
  have b: "fst (get_nexa_price ?w []) = Inr (escape_markdown_v2 example_report)
      \<and> backslash \<notin> set example_report"
    using escape_not_idempotent_applied_once [of _ _ ?w "[]" example_price "''MEXC''" example_report]
      f s example_render by simp
  from h e1 e2 a f example_render b show ?thesis by blast
qed

section \<open>Determinism\<close>

lemma fetch_price_independent: "fst (fetch_price w t) = fst (fetch_price w t')"
  by (simp add: fetch_price_result)

lemma get_nexa_price_independent: "fst (get_nexa_price w t) = fst (get_nexa_price w t')"
  using fetch_price_independent [of w t t'] by (simp add: get_nexa_price_result)

text \<open>
  C8. Two invocations of \<open>get_nexa_price\<close> against the same upstream replies, the second
  starting in the state the first one left (its requests and log calls are the only
  effects), return the same result, be it the report, the error message or an exception:
  nothing the first run leaves behind reaches the output of the second.
\<close>

theorem report_deterministic:
  assumes "get_nexa_price w t = (out1, t1)" and "get_nexa_price w t1 = (out2, t2)"
  shows "out1 = out2"
  using assms get_nexa_price_independent [of w t t1] by simp

theorem report_deterministic_witness:
  "fst (get_nexa_price (upstream_of NoReply cg_empty NoReply NoReply) []) = Inr error_message
   \<and> fst (get_nexa_price (upstream_of NoReply cg_empty NoReply NoReply)
          (snd (get_nexa_price (upstream_of NoReply cg_empty NoReply NoReply) [])))
       = Inr error_message
   \<and> fst (get_nexa_price (upstream_of mexc_ticker NoReply explorer_number NoReply) [])
       = Inr (escape_markdown_v2 example_report)
   \<and> fst (get_nexa_price (upstream_of mexc_ticker NoReply explorer_number NoReply)
          (snd (get_nexa_price (upstream_of mexc_ticker NoReply explorer_number NoReply) [])))
       = Inr (escape_markdown_v2 example_report)"
proof -
  let ?v = "upstream_of NoReply cg_empty NoReply NoReply"
  let ?w = "upstream_of mexc_ticker NoReply explorer_number NoReply"
  have a: "get_nexa_price ?v [] = (Inr error_message, snd (get_nexa_price ?v []))"
  proof -
    have "fst (get_nexa_price ?v []) = Inr error_message"
      by code_simp
    then show ?thesis by (simp add: prod_eq_iff)
  qed
  have b: "get_nexa_price ?w [] = (Inr (escape_markdown_v2 example_report), snd (get_nexa_price ?w []))"
    using example_output by (simp add: prod_eq_iff)
  obtain o1 t1 where c: "get_nexa_price ?v (snd (get_nexa_price ?v [])) = (o1, t1)"
    by (cases "get_nexa_price ?v (snd (get_nexa_price ?v []))")
  obtain o2 t2 where d: "get_nexa_price ?w (snd (get_nexa_price ?w [])) = (o2, t2)"
    by (cases "get_nexa_price ?w (snd (get_nexa_price ?w []))")
  from report_deterministic [OF a c] c
  have 1: "fst (get_nexa_price ?v (snd (get_nexa_price ?v []))) = Inr error_message"
    by simp
  from report_deterministic [OF b d] d
  have 2: "fst (get_nexa_price ?w (snd (get_nexa_price ?w []))) = Inr (escape_markdown_v2 example_report)"
    by simp
  from a b 1 2 show ?thesis by (simp add: prod_eq_iff)
qed

section \<open>The rounding of floats\<close>

text \<open>
  Two facts that tie \<open>round_double\<close> to its reading: \<open>binade\<close> is the binary exponent
  of its argument, and \<open>round_half_even\<close> returns an integer nearest to its argument.
\<close>

lemma pow2_powi: "pow2 k = 2 powi k"
  by (simp add: pow2_def power_int_def inverse_eq_divide power_one_over)

lemma bitlen_powi_bounds:
  assumes "0 < (p::int)"
  shows "(2::rat) powi (bitlen p - 1) \<le> of_int p \<and> of_int p < (2::rat) powi (bitlen p)"
proof -
  have l: "1 \<le> bitlen p"
    using assms by (auto simp: bitlen_alt_def)
  have "2 ^ nat (bitlen p - 1) \<le> p" "p < 2 ^ nat (bitlen p)"
    using bitlen_bounds [OF assms] by auto
  then have "(of_int (2 ^ nat (bitlen p - 1)) :: rat) \<le> of_int p"
    "(of_int p :: rat) < of_int (2 ^ nat (bitlen p))"
    by (simp_all only: of_int_le_iff of_int_less_iff)
  then show ?thesis
    using l by (simp add: power_int_def)
qed

lemma binade_bounds:
  assumes "0 < x"
  shows "pow2 (binade x) \<le> x \<and> x < pow2 (binade x + 1)"
proof -
  obtain p q where pq: "quotient_of x = (p, q)"
    by (cases "quotient_of x")
  then have q: "0 < q" and x: "x = of_int p / of_int q"
    using quotient_of_denom_pos quotient_of_div by auto
  with assms have p: "0 < p"
    by (simp add: zero_less_divide_iff)
  define k where "k = bitlen p - bitlen q"
  note bp = bitlen_powi_bounds [OF p] and bq = bitlen_powi_bounds [OF q]
  have pos: "(0::rat) < 2 powi n" for n
    by simp
  have "(2::rat) powi (bitlen p - 1) / 2 powi (bitlen q) < of_int p / of_int q"
    using bp bq q pos by (intro frac_less2) auto
  moreover have "(2::rat) powi ((bitlen p - 1) - bitlen q) = 2 powi (bitlen p - 1) / 2 powi (bitlen q)"
    by (rule power_int_diff) simp
  moreover have "k - 1 = (bitlen p - 1) - bitlen q"
    by (simp add: k_def)
  ultimately have lo: "2 powi (k - 1) < x"
    by (simp only: x)
  have "of_int p / of_int q < (2::rat) powi (bitlen p) / 2 powi (bitlen q - 1)"
    using bp bq p pos by (intro frac_less) auto
  moreover have "(2::rat) powi (bitlen p - (bitlen q - 1)) = 2 powi (bitlen p) / 2 powi (bitlen q - 1)"
    by (rule power_int_diff) simp
  moreover have "k + 1 = bitlen p - (bitlen q - 1)"
    by (simp add: k_def)
  ultimately have hi: "x < 2 powi (k + 1)"
    by (simp only: x)
  have b: "binade x = (if 2 powi k \<le> x then k else k - 1)"
    by (simp add: binade_def pq k_def pow2_powi)
  show ?thesis
  proof (cases "2 powi k \<le> x")
    case True
    with b hi show ?thesis by (simp add: pow2_powi)
  next
    case False
    with b lo show ?thesis by (simp add: pow2_powi)
  qed
qed

lemma round_half_even_nearest: "\<bar>of_int (round_half_even x) - x\<bar> \<le> 1 / 2"
proof -
  have "of_int \<lfloor>x\<rfloor> \<le> x" "x < of_int \<lfloor>x\<rfloor> + 1"
    by linarith+
  then show ?thesis
    unfolding round_half_even_def Let_def by (auto simp: abs_le_iff)
qed

end
